theory Spec2Isabelle
  imports Main "HOL-Library.Multiset" "HOL-Library.Word"
begin

section \<open>Vault store and key ring\<close>

text \<open>
  The collaborators of the vault are the functions of the ethers library; they are not
  part of the repository and enter the model as parameters. A thrown exception is the
  left injection of a sum.
\<close>

datatype error =
    Legacy_plaintext
  | Lib_error string
  | Type_error
  | ENOENT
  | Unsupported string

record wallet =
  address :: string
  privateKey :: string

text \<open>An entry of \<^verbatim>\<open>my_wallets.json\<close> or \<^verbatim>\<open>trash_wallets.json\<close>:
  \<^verbatim>\<open>{name, data}\<close> when encrypted, \<^verbatim>\<open>{name, privateKey}\<close> when plain. A missing
  property is \<open>None\<close>.\<close>

record rawWallet =
  rw_name :: string
  rw_data :: "string option"
  rw_privateKey :: "string option"

text \<open>An entry of \<^verbatim>\<open>DECRYPTED_WALLETS\<close>: \<^verbatim>\<open>{name, wallet}\<close>.\<close>

record decrypted =
  dw_name :: string
  dw_wallet :: wallet

text \<open>\<^verbatim>\<open>ethers.Wallet.fromEncryptedJson(json, password)\<close>: the wallet, or a throw.\<close>

type_synonym decryptor = "string option \<Rightarrow> string \<Rightarrow> error + wallet"

text \<open>JavaScript truthiness of an optional string property.\<close>

fun truthy :: "string option \<Rightarrow> bool" where
  "truthy None = False"
| "truthy (Some s) = (s \<noteq> [])"

subsection \<open>core.js: unlockWallets\<close>

text \<open>
  \<^verbatim>\<open>
  DECRYPTED_WALLETS = [];
  for (const w of rawWallets) {
      if (w.privateKey) throw new Error("Legacy plain-text wallets found. ...");
      const wallet = await ethers.Wallet.fromEncryptedJson(w.data, password);
      DECRYPTED_WALLETS.push({ name: w.name, wallet: wallet });
  }
  return DECRYPTED_WALLETS;
  \<close>
  The loop carries the global \<^verbatim>\<open>DECRYPTED_WALLETS\<close>; the pair returned is the outcome of
  the loop and the value of the global when the loop is left.
\<close>

fun unlock_loop :: "decryptor \<Rightarrow> string \<Rightarrow> rawWallet list \<Rightarrow> decrypted list
    \<Rightarrow> (error + unit) \<times> decrypted list" where
  "unlock_loop dec password [] ring = (Inr (), ring)"
| "unlock_loop dec password (w # ws) ring =
     (if truthy (rw_privateKey w) then (Inl Legacy_plaintext, ring)
      else case dec (rw_data w) password of
             Inl e \<Rightarrow> (Inl e, ring)
           | Inr wal \<Rightarrow>
               unlock_loop dec password ws (ring @ [\<lparr>dw_name = rw_name w, dw_wallet = wal\<rparr>]))"

text \<open>
  \<open>unlockWallets dec file password ring\<close>: \<open>file\<close> is the parsed content of the wallets
  file (\<open>None\<close> when the file does not exist), \<open>ring\<close> the global before the call. The
  result is what the call returns or throws, and the global after it.
\<close>

definition unlockWallets :: "decryptor \<Rightarrow> rawWallet list option \<Rightarrow> string \<Rightarrow> decrypted list
    \<Rightarrow> (error + decrypted list) \<times> decrypted list" where
  "unlockWallets dec file password ring =
     (case file of
        None \<Rightarrow> (Inr [], ring)
      | Some rawWallets \<Rightarrow>
          (case unlock_loop dec password rawWallets [] of
             (Inl e, ring') \<Rightarrow> (Inl e, ring')
           | (Inr u, ring') \<Rightarrow> (Inr ring', ring')))"

text \<open>A toy cipher for concrete runs: the blob is \<open>password # key\<close>, a one-character
  password in front of the private key, and the address is the key reversed.\<close>

fun toy_decrypt :: decryptor where
  "toy_decrypt None pw = Inl (Lib_error ''invalid JSON wallet'')"
| "toy_decrypt (Some []) pw = Inl (Lib_error ''invalid JSON wallet'')"
| "toy_decrypt (Some (c # key)) pw =
     (if pw = [c] then Inr \<lparr>address = rev key, privateKey = key\<rparr>
      else Inl (Lib_error ''incorrect password''))"

definition enc_record :: "string \<Rightarrow> string \<Rightarrow> rawWallet" where
  "enc_record n blob = \<lparr>rw_name = n, rw_data = Some blob, rw_privateKey = None\<rparr>"

subsection \<open>cli.js: the state of the command-line program\<close>

text \<open>
  The module-level variables \<^verbatim>\<open>DECRYPTED_WALLETS\<close> and \<^verbatim>\<open>SESSION_PASSWORD\<close>, the parsed
  contents of the two JSON files (\<open>None\<close>: the file does not exist), and the number of
  password prompts shown so far. The user is a function \<open>typed\<close>: \<open>typed k\<close> is what is
  entered at the \<open>k\<close>-th password prompt.
\<close>

record cli_state =
  DECRYPTED_WALLETS :: "decrypted list"
  SESSION_PASSWORD :: "string option"
  WALLETS_FILE :: "rawWallet list option"
  TRASH_FILE :: "rawWallet list option"
  asked :: nat

text \<open>
  \<^verbatim>\<open>getPassword(confirm = false)\<close>:
  \<^verbatim>\<open>
  if (SESSION_PASSWORD) return SESSION_PASSWORD;
  const answers = await inquirer.prompt(questions);
  SESSION_PASSWORD = answers.password;
  return SESSION_PASSWORD;
  \<close>
\<close>

definition getPassword :: "(nat \<Rightarrow> string) \<Rightarrow> cli_state \<Rightarrow> string \<times> cli_state" where
  "getPassword typed s =
     (if truthy (SESSION_PASSWORD s) then (the (SESSION_PASSWORD s), s)
      else (typed (asked s),
            s\<lparr>SESSION_PASSWORD := Some (typed (asked s)), asked := Suc (asked s)\<rparr>))"

definition loadWalletsRaw :: "cli_state \<Rightarrow> rawWallet list" where
  "loadWalletsRaw s = (case WALLETS_FILE s of None \<Rightarrow> [] | Some raw \<Rightarrow> raw)"

subsection \<open>cli.js: initializeWallets\<close>

text \<open>
  The body of the \<^verbatim>\<open>try\<close> block, after \<^verbatim>\<open>DECRYPTED_WALLETS = []\<close>:
  \<^verbatim>\<open>
  for (const w of rawWallets) {
      const wallet = await ethers.Wallet.fromEncryptedJson(w.data, password);
      DECRYPTED_WALLETS.push({ name: w.name, wallet: wallet });
  }
  \<close>
\<close>

fun decrypt_existing :: "decryptor \<Rightarrow> string \<Rightarrow> rawWallet list \<Rightarrow> decrypted list
    \<Rightarrow> (error + unit) \<times> decrypted list" where
  "decrypt_existing dec password [] ring = (Inr (), ring)"
| "decrypt_existing dec password (w # ws) ring =
     (case dec (rw_data w) password of
        Inl e \<Rightarrow> (Inl e, ring)
      | Inr wal \<Rightarrow>
          decrypt_existing dec password ws (ring @ [\<lparr>dw_name = rw_name w, dw_wallet = wal\<rparr>]))"

text \<open>
  \<^verbatim>\<open>
  let attempts = 3;
  while (attempts > 0) {
      const password = await getPassword();
      try { DECRYPTED_WALLETS = []; for ...; break; }
      catch (e) { SESSION_PASSWORD = null; attempts--; }
  }
  \<close>
  The recursion is on \<^verbatim>\<open>attempts\<close>; the result is its value when the loop is left.
\<close>

fun unlock_attempts :: "decryptor \<Rightarrow> (nat \<Rightarrow> string) \<Rightarrow> rawWallet list \<Rightarrow> nat \<Rightarrow> cli_state
    \<Rightarrow> nat \<times> cli_state" where
  "unlock_attempts dec typed rawWallets 0 s = (0, s)"
| "unlock_attempts dec typed rawWallets (Suc n) s =
     (case getPassword typed s of
        (password, s1) \<Rightarrow>
          (case decrypt_existing dec password rawWallets [] of
             (Inr u, ring) \<Rightarrow> (Suc n, s1\<lparr>DECRYPTED_WALLETS := ring\<rparr>)
           | (Inl e, ring) \<Rightarrow>
               unlock_attempts dec typed rawWallets n
                 (s1\<lparr>DECRYPTED_WALLETS := ring, SESSION_PASSWORD := None\<rparr>)))"

text \<open>
  How \<^verbatim>\<open>initializeWallets\<close> ends. \<open>Fatal_exit\<close> is \<^verbatim>\<open>process.exit(1)\<close>. The migration branch
  (plain-text entries are encrypted under a newly chosen password) is not followed
  further: \<open>Migration\<close> stands for it.
\<close>

datatype init_outcome = No_wallets | Migration | Unlocked | Fatal_exit

definition initializeWallets :: "decryptor \<Rightarrow> (nat \<Rightarrow> string) \<Rightarrow> cli_state
    \<Rightarrow> init_outcome \<times> cli_state" where
  "initializeWallets dec typed s =
     (let rawWallets = loadWalletsRaw s in
      if rawWallets = [] then (No_wallets, s)
      else if truthy (rw_privateKey (hd rawWallets)) then (Migration, s)
      else (case unlock_attempts dec typed rawWallets 3 s of
              (attempts, s') \<Rightarrow> if attempts = 0 then (Fatal_exit, s') else (Unlocked, s')))"

text \<open>A password is wrong for a record set when the decryption loop throws.\<close>

definition wrong_password :: "decryptor \<Rightarrow> rawWallet list \<Rightarrow> string \<Rightarrow> bool" where
  "wrong_password dec rawWallets password =
     isl (fst (decrypt_existing dec password rawWallets []))"

subsection \<open>cli.js: restoreWallet\<close>

text \<open>
  The \<^verbatim>\<open>rawlist\<close> prompt offers the indices of the trash entries and \<^verbatim>\<open>BACK\<close>.
  \<^verbatim>\<open>
  if (choice.idx === 'BACK') return;
  const restored = trash.splice(choice.idx, 1)[0];
  fs.writeFileSync(TRASH_FILE, JSON.stringify(trash, null, 2));
  const rawWallets = JSON.parse(fs.readFileSync(WALLETS_FILE, 'utf8'));
  rawWallets.push(restored);
  fs.writeFileSync(WALLETS_FILE, JSON.stringify(rawWallets, null, 2));
  const password = await getPassword();
  try {
      const wallet = await ethers.Wallet.fromEncryptedJson(restored.data, password);
      DECRYPTED_WALLETS.push({ name: restored.name, wallet: wallet });
  } catch(e) { console.log("... failed to unlock in current session ..."); }
  \<close>
  An index that the prompt does not offer cannot be chosen; the model ends with
  \<open>Not_offered\<close> there and changes nothing. Reading a wallets file that does not exist
  throws after the trash file has been rewritten.
\<close>

datatype restore_choice = Pick nat | BACK

datatype restore_outcome =
  No_trash_file | Trash_empty | Went_back | Not_offered | Restored_unlocked | Restored_locked

definition splice1 :: "nat \<Rightarrow> 'a list \<Rightarrow> 'a list" where
  "splice1 idx xs = take idx xs @ drop (Suc idx) xs"

definition restoreWallet :: "decryptor \<Rightarrow> (nat \<Rightarrow> string) \<Rightarrow> restore_choice \<Rightarrow> cli_state
    \<Rightarrow> (error + restore_outcome) \<times> cli_state" where
  "restoreWallet dec typed choice s =
     (case TRASH_FILE s of
        None \<Rightarrow> (Inr No_trash_file, s)
      | Some trash \<Rightarrow>
          if trash = [] then (Inr Trash_empty, s)
          else (case choice of
                  BACK \<Rightarrow> (Inr Went_back, s)
                | Pick idx \<Rightarrow>
                    if length trash \<le> idx then (Inr Not_offered, s)
                    else
                      let restored = trash ! idx;
                          s1 = s\<lparr>TRASH_FILE := Some (splice1 idx trash)\<rparr>
                      in (case WALLETS_FILE s1 of
                            None \<Rightarrow> (Inl ENOENT, s1)
                          | Some rawWallets \<Rightarrow>
                              let s2 = s1\<lparr>WALLETS_FILE := Some (rawWallets @ [restored])\<rparr>
                              in (case getPassword typed s2 of
                                    (password, s3) \<Rightarrow>
                                      (case dec (rw_data restored) password of
                                         Inl e \<Rightarrow> (Inr Restored_locked, s3)
                                       | Inr wal \<Rightarrow>
                                           (Inr Restored_unlocked,
                                            s3\<lparr>DECRYPTED_WALLETS :=
                                                 DECRYPTED_WALLETS s3 @
                                                 [\<lparr>dw_name = rw_name restored,
                                                   dw_wallet = wal\<rparr>]\<rparr>))))))"

text \<open>Two encrypted records under the password \<open>p\<close>, nothing unlocked yet.\<close>

definition two_wallets :: cli_state where
  "two_wallets =
     \<lparr>DECRYPTED_WALLETS = [], SESSION_PASSWORD = None,
      WALLETS_FILE = Some [enc_record ''A'' ''pk1'', enc_record ''B'' ''pk2''],
      TRASH_FILE = None, asked = 0\<rparr>"

text \<open>One active record and two records in the trash.\<close>

definition with_trash :: cli_state where
  "with_trash =
     \<lparr>DECRYPTED_WALLETS = [], SESSION_PASSWORD = Some ''p'',
      WALLETS_FILE = Some [enc_record ''A'' ''pk1''],
      TRASH_FILE = Some [enc_record ''Main'' ''pk2'', enc_record ''Old'' ''pk3''],
      asked = 0\<rparr>"

section \<open>Sessions with a remote peer\<close>

subsection \<open>Values received from the peer\<close>

text \<open>
  Request parameters are JSON values. Reading a property of \<^verbatim>\<open>undefined\<close> or \<^verbatim>\<open>null\<close> throws a
  TypeError; a property that an object does not have, and any property of the other
  values that the handlers read, is \<^verbatim>\<open>undefined\<close>.
\<close>

datatype json =
    JUndefined
  | JNull
  | JBool bool
  | JNum int
  | JStr string
  | JArr "json list"
  | JObj "(string \<times> json) list"

fun get_prop :: "json \<Rightarrow> string \<Rightarrow> error + json" where
  "get_prop JUndefined k = Inl Type_error"
| "get_prop JNull k = Inl Type_error"
| "get_prop (JObj kvs) k = Inr (case map_of kvs k of None \<Rightarrow> JUndefined | Some v \<Rightarrow> v)"
| "get_prop v k = Inr JUndefined"

text \<open>\<^verbatim>\<open>request.params[i]\<close>\<close>

definition param_at :: "json list \<Rightarrow> nat \<Rightarrow> json" where
  "param_at ps i = (if i < length ps then ps ! i else JUndefined)"

text \<open>\<^verbatim>\<open>s.startsWith(p)\<close>\<close>

definition startsWith :: "string \<Rightarrow> string \<Rightarrow> bool" where
  "startsWith s p = (take (length p) s = p)"

subsection \<open>The ethers functions that personal_sign uses\<close>

text \<open>
  \<^verbatim>\<open>ethers.isHexString\<close>, \<^verbatim>\<open>ethers.getBytes\<close> and \<^verbatim>\<open>ethers.toUtf8String\<close> belong to the ethers
  library (version 6), not to the repository. They are written out after the library's
  behaviour: \<^verbatim>\<open>isHexString(v)\<close> holds for a string matching \<^verbatim>\<open>/^0x[0-9A-Fa-f]*$/\<close>;
  \<^verbatim>\<open>getBytes(v)\<close> reads two hex digits per byte of a string matching
  \<^verbatim>\<open>/^0x(?:[0-9a-f][0-9a-f])*$/i\<close> and throws on anything else, an odd number of digits
  included; \<^verbatim>\<open>toUtf8String(v)\<close> takes the bytes of \<open>v\<close> and throws unless they are
  well-formed UTF-8. A text is the list of its UTF-8 bytes, as a \<open>string\<close> is here.
\<close>

type_synonym byte = "8 word"

definition hex_digit :: "char \<Rightarrow> nat option" where
  "hex_digit c =
     (let n = (of_char c :: nat) in
      if 48 \<le> n \<and> n \<le> 57 then Some (n - 48)
      else if 97 \<le> n \<and> n \<le> 102 then Some (n - 87)
      else if 65 \<le> n \<and> n \<le> 70 then Some (n - 55)
      else None)"

definition isHexString :: "json \<Rightarrow> bool" where
  "isHexString v =
     (case v of
        JStr s \<Rightarrow> take 2 s = ''0x'' \<and> list_all (\<lambda>c. hex_digit c \<noteq> None) (drop 2 s)
      | _ \<Rightarrow> False)"

fun hex_pairs :: "string \<Rightarrow> byte list option" where
  "hex_pairs [] = Some []"
| "hex_pairs [c] = None"
| "hex_pairs (h # l # cs) =
     (case (hex_digit h, hex_digit l, hex_pairs cs) of
        (Some a, Some b, Some bs) \<Rightarrow> Some (of_nat (16 * a + b) # bs)
      | _ \<Rightarrow> None)"

definition getBytes :: "json \<Rightarrow> error + byte list" where
  "getBytes v =
     (case v of
        JStr s \<Rightarrow>
          (if take 2 s = ''0x'' \<or> take 2 s = ''0X'' then
             (case hex_pairs (drop 2 s) of
                Some bs \<Rightarrow> Inr bs
              | None \<Rightarrow> Inl (Lib_error ''invalid BytesLike value''))
           else Inl (Lib_error ''invalid BytesLike value''))
      | _ \<Rightarrow> Inl (Lib_error ''invalid BytesLike value''))"

definition continuation :: "byte \<Rightarrow> bool" where
  "continuation b = (0x80 \<le> b \<and> b \<le> 0xBF)"

fun valid_utf8 :: "byte list \<Rightarrow> bool" where
  "valid_utf8 [] = True"
| "valid_utf8 (b # bs) =
     (if b < 0x80 then valid_utf8 bs
      else if 0xC2 \<le> b \<and> b \<le> 0xDF then
        (case bs of c1 # r \<Rightarrow> continuation c1 \<and> valid_utf8 r | _ \<Rightarrow> False)
      else if 0xE0 \<le> b \<and> b \<le> 0xEF then
        (case bs of
           c1 # c2 # r \<Rightarrow>
             continuation c1 \<and> continuation c2 \<and>
             (if b = 0xE0 then 0xA0 \<le> c1 else True) \<and>
             (if b = 0xED then c1 \<le> 0x9F else True) \<and> valid_utf8 r
         | _ \<Rightarrow> False)
      else if 0xF0 \<le> b \<and> b \<le> 0xF4 then
        (case bs of
           c1 # c2 # c3 # r \<Rightarrow>
             continuation c1 \<and> continuation c2 \<and> continuation c3 \<and>
             (if b = 0xF0 then 0x90 \<le> c1 else True) \<and>
             (if b = 0xF4 then c1 \<le> 0x8F else True) \<and> valid_utf8 r
         | _ \<Rightarrow> False)
      else False)"

definition text_of :: "byte list \<Rightarrow> string" where
  "text_of bs = map (\<lambda>b. char_of (unat b)) bs"

definition toUtf8String :: "json \<Rightarrow> error + string" where
  "toUtf8String v =
     (case getBytes v of
        Inl e \<Rightarrow> Inl e
      | Inr bs \<Rightarrow> if valid_utf8 bs then Inr (text_of bs) else Inl (Lib_error ''invalid codepoint''))"

subsection \<open>Requested and approved namespaces\<close>

text \<open>
  An entry of \<^verbatim>\<open>requiredNamespaces\<close> or \<^verbatim>\<open>optionalNamespaces\<close>; a property that the peer left
  out is \<open>None\<close>. The objects keyed by namespace are maps.
\<close>

record proposal_namespace =
  chains :: "string list option"
  methods :: "string list option"
  events :: "string list option"

record namespace =
  accounts :: "string list"
  ns_methods :: "string list"
  ns_events :: "string list"

record session_proposal =
  proposal_id :: nat
  proposer_name :: string
  requiredNamespaces :: "(string \<rightharpoonup> proposal_namespace) option"
  optionalNamespaces :: "(string \<rightharpoonup> proposal_namespace) option"

text \<open>\<^verbatim>\<open>x || d\<close> for an array or object \<open>x\<close> that may be missing (an empty array is truthy).\<close>

definition or_else :: "'a option \<Rightarrow> 'a \<Rightarrow> 'a" where
  "or_else x d = (case x of None \<Rightarrow> d | Some v \<Rightarrow> v)"

text \<open>
  \<^verbatim>\<open>
  const required = params.requiredNamespaces || {};
  const optional = params.optionalNamespaces || {};
  const allNamespaces = { ...required, ...optional };
  \<close>
  The spread copies the entries of \<open>required\<close> and then those of \<open>optional\<close>, so for a key
  of both the entry of \<open>optional\<close> replaces that of \<open>required\<close>.
\<close>

definition allNamespaces :: "session_proposal \<Rightarrow> (string \<rightharpoonup> proposal_namespace)" where
  "allNamespaces p =
     or_else (requiredNamespaces p) Map.empty ++ or_else (optionalNamespaces p) Map.empty"

text \<open>
  \<^verbatim>\<open>
  Object.keys(allNamespaces).forEach((key) => {
    const chains = allNamespaces[key].chains || ["eip155:1"];
    const accounts = chains.map((chain) => `${chain}:${signer.address}`);
    namespaces[key] = {
      accounts,
      methods: allNamespaces[key].methods || [],
      events: allNamespaces[key].events || [],
    };
  });
  \<close>
\<close>

definition account_of :: "string \<Rightarrow> string \<Rightarrow> string" where
  "account_of signer_address chain = chain @ '':'' @ signer_address"

definition build_namespace :: "string \<Rightarrow> proposal_namespace \<Rightarrow> namespace" where
  "build_namespace signer_address e =
     \<lparr>accounts = map (account_of signer_address) (or_else (chains e) [''eip155:1'']),
      ns_methods = or_else (methods e) [],
      ns_events = or_else (events e) []\<rparr>"

definition approved_namespaces :: "string \<Rightarrow> session_proposal \<Rightarrow> (string \<rightharpoonup> namespace)" where
  "approved_namespaces signer_address p =
     (\<lambda>key. map_option (build_namespace signer_address) (allNamespaces p key))"

subsection \<open>What a handler does\<close>

text \<open>
  A handler run is the list of its effects in order: lines printed, prompts with the
  answer given, calls of the signer, of the chain and of the WalletConnect client. A
  yes/no prompt is a \<open>Confirm\<close>; every other prompt is an \<open>Input\<close>.
\<close>

datatype answer = Yes | No

datatype question =
    Ask_connect string string
  | Ask_approve string
  | Ask_send json json
  | Ask_router_approval string
  | Ask_reveal

datatype field =
    Select_wallet
  | Select_network
  | Select_asset
  | Select_token
  | Token_contract_address
  | Send_to
  | Select_recipient
  | Recipient_address
  | Amount

datatype sign_data = Bytes "byte list" | Raw json

record tx =
  tx_to :: json
  tx_value :: json
  tx_data :: json
  tx_gasLimit :: json

record response =
  resp_id :: nat
  resp_result :: "string option"
  resp_error :: "(int \<times> string) option"

datatype line =
    Session_proposal_from string
  | Connection_rejected
  | Connected
  | New_request string
  | Rejected_locally
  | Signing json
  | Processing_transaction json
  | Transaction_cancelled
  | Sending_transaction
  | Sent string
  | Signed_and_sent
  | Error_signing error
  | Response_sent
  | Signing_failed error
  | No_wallets_unlocked
  | Invalid_token
  | Preparing_to_send string string
  | To_recipient string
  | Transaction_sent string
  | Transaction_failed error
  | Swap_not_supported
  | Approving_max
  | Approved string
  | WNative_missing
  | Swapping
  | Swap_sent string
  | Swap_failed error
  | Private_key_hidden

datatype effect =
    Log line
  | Confirm question answer
  | Input field
  | Sign_message sign_data
  | Sign_typed_data json json json
  | Send_transaction string tx
  | Respond string response
  | Approve_session nat "string \<rightharpoonup> namespace"
  | Resolve
  | Token_transfer string string string int
  | Send_native string string int "int option"
  | Token_approve string string string
  | Swap_tokens string string int "string list" string
  | Reveal_key string
  | Thrown error

text \<open>
  The collaborators of the request handler: the signer bound to the session, the chain
  behind a provider URL, and \<^verbatim>\<open>JSON.parse\<close>. Each returns its value or throws.
\<close>

record collaborators =
  signMessage :: "sign_data \<Rightarrow> error + string"
  signTypedData :: "json \<Rightarrow> json \<Rightarrow> json \<Rightarrow> error + string"
  sendTransaction :: "string \<Rightarrow> tx \<Rightarrow> error + string"
  JSON_parse :: "string \<Rightarrow> error + json"

record request =
  request_method :: string
  request_params :: "json list"

text \<open>A \<^verbatim>\<open>session_request\<close> event: \<^verbatim>\<open>{topic, id, params: {request, chainId}}\<close>.\<close>

record session_request =
  topic :: string
  request_id :: nat
  chainId :: string
  request :: request

definition RPC_URL :: string where
  "RPC_URL = ''https://eth.llamarpc.com''"

subsection \<open>cli.js: connectWallet, the session_proposal handler\<close>

text \<open>
  \<^verbatim>\<open>
  const selectedWalletData =
    DECRYPTED_WALLETS.find(w => w.wallet.address === walletChoice.walletAddress);
  const signer = selectedWalletData.wallet;
  \<close>
\<close>

definition select_signer :: "decrypted list \<Rightarrow> string \<Rightarrow> error + decrypted" where
  "select_signer ring walletAddress =
     (case find (\<lambda>w. address (dw_wallet w) = walletAddress) ring of
        None \<Rightarrow> Inl Type_error
      | Some selectedWalletData \<Rightarrow> Inr selectedWalletData)"

text \<open>
  \<^verbatim>\<open>
  const confirm = await inquirer.prompt([{ ..., message:
    `Do you want to connect ${selectedWalletData.name} to ${dAppName}?`, choices: ['Yes', 'No'] }]);
  if (confirm.approve === 'No') { console.log("Connection rejected."); resolve(); return; }
  ... namespaces ...
  const { topic, acknowledged } = await client.approve({ id, namespaces });
  \<close>
\<close>

definition on_session_proposal :: "decrypted \<Rightarrow> session_proposal \<Rightarrow> answer \<Rightarrow> effect list" where
  "on_session_proposal selectedWalletData p approve =
     [Log (Session_proposal_from (proposer_name p)),
      Confirm (Ask_connect (dw_name selectedWalletData) (proposer_name p)) approve] @
     (if approve = No then [Log Connection_rejected, Resolve]
      else [Approve_session (proposal_id p)
              (approved_namespaces (address (dw_wallet selectedWalletData)) p),
            Log Connected])"

subsection \<open>cli.js: connectWallet, the session_request handler\<close>

text \<open>How the \<^verbatim>\<open>try\<close> block is left: by a throw, by \<^verbatim>\<open>return\<close>, or at its end with the
  variable \<^verbatim>\<open>result\<close> (\<open>None\<close> when it was never assigned).\<close>

datatype outcome = Threw error | Returned | Result "string option"

definition sign_and_log :: "collaborators \<Rightarrow> sign_data \<Rightarrow> json \<Rightarrow> effect list \<times> outcome" where
  "sign_and_log env data readable =
     ([Log (Signing readable), Sign_message data],
      case signMessage env data of Inl e \<Rightarrow> Threw e | Inr signature \<Rightarrow> Result (Some signature))"

text \<open>
  \<^verbatim>\<open>
  const message = request.params[0];
  const data = ethers.isHexString(message) ? ethers.getBytes(message) : message;
  const readable = ethers.isHexString(message) ? ethers.toUtf8String(message) : message;
  console.log(`Signing: "${readable}"`);
  result = await signer.signMessage(data);
  \<close>
\<close>

definition personal_sign :: "collaborators \<Rightarrow> json list \<Rightarrow> effect list \<times> outcome" where
  "personal_sign env ps =
     (let message = param_at ps 0 in
      if isHexString message then
        (case getBytes message of
           Inl e \<Rightarrow> ([], Threw e)
         | Inr data \<Rightarrow>
             (case toUtf8String message of
                Inl e \<Rightarrow> ([], Threw e)
              | Inr readable \<Rightarrow> sign_and_log env (Bytes data) (JStr readable)))
      else sign_and_log env (Raw message) message)"

text \<open>
  \<^verbatim>\<open>
  const [_, data] = request.params;
  const parsedData = typeof data === 'string' ? JSON.parse(data) : data;
  result = await signer.signTypedData(parsedData.domain, parsedData.types, parsedData.message);
  \<close>
\<close>

definition signTypedData_branch :: "collaborators \<Rightarrow> json list \<Rightarrow> effect list \<times> outcome" where
  "signTypedData_branch env ps =
     (let data = param_at ps 1 in
      case (case data of JStr s \<Rightarrow> JSON_parse env s | _ \<Rightarrow> Inr data) of
        Inl e \<Rightarrow> ([], Threw e)
      | Inr parsedData \<Rightarrow>
          (case (get_prop parsedData ''domain'', get_prop parsedData ''types'',
                 get_prop parsedData ''message'') of
             (Inr d, Inr t, Inr m) \<Rightarrow>
               ([Sign_typed_data d t m],
                case signTypedData env d t m of
                  Inl e \<Rightarrow> Threw e
                | Inr signature \<Rightarrow> Result (Some signature))
           | _ \<Rightarrow> ([], Threw Type_error)))"

text \<open>
  \<^verbatim>\<open>
  const provider = new ethers.JsonRpcProvider(RPC_URL);
  const connectedWallet = signer.connect(provider);
  const txParams = request.params[0];
  console.log("Processing Transaction:", txParams);
  const tx = { to: txParams.to, value: txParams.value, data: txParams.data,
               gasLimit: txParams.gas };
  const confirmTx = await inquirer.prompt([{ ..., message:
    `Send transaction to ${tx.to} with value ${tx.value}?`, choices: ['Yes', 'No'] }]);
  if (confirmTx.send === 'No') { console.log("Transaction cancelled."); return; }
  console.log("Sending transaction...");
  const txResponse = await connectedWallet.sendTransaction(tx);
  console.log(`Sent! Hash: ${txResponse.hash}`);
  result = txResponse.hash;
  \<close>
\<close>

definition tx_of :: "json \<Rightarrow> error + tx" where
  "tx_of txParams =
     (case (get_prop txParams ''to'', get_prop txParams ''value'', get_prop txParams ''data'',
            get_prop txParams ''gas'') of
        (Inr t, Inr v, Inr d, Inr g) \<Rightarrow>
          Inr \<lparr>tx_to = t, tx_value = v, tx_data = d, tx_gasLimit = g\<rparr>
      | _ \<Rightarrow> Inl Type_error)"

definition eth_sendTransaction :: "collaborators \<Rightarrow> json list \<Rightarrow> answer
    \<Rightarrow> effect list \<times> outcome" where
  "eth_sendTransaction env ps send =
     (let txParams = param_at ps 0 in
      case tx_of txParams of
        Inl e \<Rightarrow> ([Log (Processing_transaction txParams)], Threw e)
      | Inr tx \<Rightarrow>
          if send = No then
            ([Log (Processing_transaction txParams),
              Confirm (Ask_send (tx_to tx) (tx_value tx)) send,
              Log Transaction_cancelled], Returned)
          else
            (case sendTransaction env RPC_URL tx of
               Inl e \<Rightarrow>
                 ([Log (Processing_transaction txParams),
                   Confirm (Ask_send (tx_to tx) (tx_value tx)) send,
                   Log Sending_transaction, Send_transaction RPC_URL tx], Threw e)
             | Inr hash \<Rightarrow>
                 ([Log (Processing_transaction txParams),
                   Confirm (Ask_send (tx_to tx) (tx_value tx)) send,
                   Log Sending_transaction, Send_transaction RPC_URL tx,
                   Log (Sent hash)], Result (Some hash))))"

definition dispatch :: "collaborators \<Rightarrow> request \<Rightarrow> answer \<Rightarrow> effect list \<times> outcome" where
  "dispatch env req send =
     (if request_method req = ''personal_sign'' then personal_sign env (request_params req)
      else if startsWith (request_method req) ''eth_signTypedData'' then
        signTypedData_branch env (request_params req)
      else if request_method req = ''eth_sendTransaction'' then
        eth_sendTransaction env (request_params req) send
      else ([], Result None))"

text \<open>
  \<^verbatim>\<open>
  const confirmSign = await inquirer.prompt([{ ..., message:
    `Approve ${request.method} request?`, choices: ['Yes', 'No'] }]);
  if (confirmSign.sign === 'No') { console.log("Request rejected locally."); return; }
  try {
      let result;
      ... the three branches ...
      if (result) {
          await client.respond({ topic, response: { id, jsonrpc: "2.0", result } });
          console.log("Signed & Sent!");
      }
  } catch (error) { console.error("Error signing:", error.message); }
  \<close>
  \<open>sign\<close> and \<open>send\<close> are the user's answers to the two prompts; \<open>send\<close> is asked for
  \<^verbatim>\<open>eth_sendTransaction\<close> only.
\<close>

definition on_session_request :: "collaborators \<Rightarrow> session_request \<Rightarrow> answer \<Rightarrow> answer
    \<Rightarrow> effect list" where
  "on_session_request env event sign send =
     [Log (New_request (request_method (request event))),
      Confirm (Ask_approve (request_method (request event))) sign] @
     (if sign = No then [Log Rejected_locally]
      else
        (case dispatch env (request event) send of
           (effects, Threw e) \<Rightarrow> effects @ [Log (Error_signing e)]
         | (effects, Returned) \<Rightarrow> effects
         | (effects, Result r) \<Rightarrow>
             effects @
             (if truthy r then
                [Respond (topic event)
                   \<lparr>resp_id = request_id event, resp_result = r, resp_error = None\<rparr>,
                 Log Signed_and_sent]
              else [])))"


subsection \<open>The headless wallet script (src/unnamed/part\_002)\<close>

text \<open>
  The script holds one wallet and asks the user nothing.
  \<^verbatim>\<open>
  client.on("session_proposal", async (proposal) => {
    ... namespaces as above, with wallet.address ...
    const { topic, acknowledged } = await client.approve({ id, namespaces });
  });
  \<close>
\<close>

definition headless_session_proposal :: "wallet \<Rightarrow> session_proposal \<Rightarrow> effect list" where
  "headless_session_proposal w p =
     [Log (Session_proposal_from (proposer_name p)),
      Approve_session (proposal_id p) (approved_namespaces (address w) p),
      Log Connected]"

text \<open>
  \<^verbatim>\<open>
  try {
    let result;
    if (request.method === "personal_sign") { ... }
    else if (request.method === "eth_signTypedData" ||
             request.method === "eth_signTypedData_v4") { ... }
    else { throw new Error(`Method ${request.method} not supported`); }
    await client.respond({ topic, response: { id, jsonrpc: "2.0", result } });
  } catch (err) {
    await client.respond({ topic, response: { id, jsonrpc: "2.0",
      error: { code: 5000, message: err.message } } });
  }
  \<close>
\<close>




subsection \<open>Predicates on runs\<close>




text \<open>A response that carries an error \<^verbatim>\<open>{code, message}\<close>.\<close>

fun carries_error :: "effect \<Rightarrow> bool" where
  "carries_error (Respond t r) = (resp_error r \<noteq> None)"
| "carries_error e = False"

text \<open>The request is executed: the signer signs or a transaction is broadcast.\<close>

fun executes :: "effect \<Rightarrow> bool" where
  "executes (Sign_message d) = True"
| "executes (Sign_typed_data d t m) = True"
| "executes (Send_transaction u t) = True"
| "executes e = False"

text \<open>Concrete collaborators and events for runs.\<close>

definition sample_env :: collaborators where
  "sample_env =
     \<lparr>signMessage = (\<lambda>d. Inr ''0xsigned''),
      signTypedData = (\<lambda>d t m. Inr ''0xtyped''),
      sendTransaction = (\<lambda>u t. Inr ''0xhash''),
      JSON_parse = (\<lambda>s. Inl (Lib_error ''Unexpected token''))\<rparr>"

definition hello_request :: session_request where
  "hello_request =
     \<lparr>topic = ''t1'', request_id = 7, chainId = ''eip155:56'',
      request = \<lparr>request_method = ''personal_sign'',
                 request_params = [JStr ''0x48656c6c6f'', JStr ''0xBB'']\<rparr>\<rparr>"

definition send_request :: session_request where
  "send_request =
     \<lparr>topic = ''t1'', request_id = 8, chainId = ''eip155:56'',
      request = \<lparr>request_method = ''eth_sendTransaction'',
                 request_params =
                   [JObj [(''to'', JStr ''0xCC''), (''value'', JStr ''0x1'')]]\<rparr>\<rparr>"

text \<open>A proposal whose namespace \<open>eip155\<close> is in both the required and the optional
  namespaces, and the selected wallet.\<close>

definition both_proposal :: session_proposal where
  "both_proposal =
     \<lparr>proposal_id = 1, proposer_name = ''dApp'',
      requiredNamespaces =
        Some [''eip155'' \<mapsto>
          \<lparr>chains = Some [''eip155:1''], methods = Some [''eth_sendTransaction''],
           events = Some [''chainChanged'']\<rparr>],
      optionalNamespaces =
        Some [''eip155'' \<mapsto>
          \<lparr>chains = Some [''eip155:56''], methods = Some [''personal_sign''],
           events = Some [''accountsChanged'']\<rparr>]\<rparr>"


definition bound_wallet :: decrypted where
  "bound_wallet = \<lparr>dw_name = ''Main'', dw_wallet = \<lparr>address = ''0xBB'', privateKey = ''k''\<rparr>\<rparr>"

definition other_wallet :: decrypted where
  "other_wallet = \<lparr>dw_name = ''Burner'', dw_wallet = \<lparr>address = ''0xAA'', privateKey = ''j''\<rparr>\<rparr>"

text \<open>What the user has seen of a run when answering the approval prompt of a request:
  the run up to and including that prompt.\<close>

fun up_to_approval :: "effect list \<Rightarrow> effect list" where
  "up_to_approval [] = []"
| "up_to_approval (Confirm (Ask_approve m) a # es) = [Confirm (Ask_approve m) a]"
| "up_to_approval (e # es) = e # up_to_approval es"

definition invalid_utf8_request :: session_request where
  "invalid_utf8_request =
     \<lparr>topic = ''t1'', request_id = 9, chainId = ''eip155:1'',
      request = \<lparr>request_method = ''personal_sign'',
                 request_params = [JStr ''0xff'', JStr ''0xBB'']\<rparr>\<rparr>"

text \<open>The address of an account string \<^verbatim>\<open>namespace:reference:address\<close>: what follows the
  last colon.\<close>

definition address_part :: "string \<Rightarrow> string" where
  "address_part account = rev (takeWhile (\<lambda>c. c \<noteq> CHR '':'') (rev account))"

text \<open>A proposal that requires \<open>eip155\<close> on two chains and optionally asks for \<open>cosmos\<close>
  without naming a chain.\<close>

definition two_key_proposal :: session_proposal where
  "two_key_proposal =
     \<lparr>proposal_id = 3, proposer_name = ''dApp'',
      requiredNamespaces =
        Some [''eip155'' \<mapsto>
          \<lparr>chains = Some [''eip155:1'', ''eip155:56''], methods = Some [''personal_sign''],
           events = None\<rparr>],
      optionalNamespaces =
        Some [''cosmos'' \<mapsto>
          \<lparr>chains = None, methods = Some [''cosmos_signDirect''], events = None\<rparr>]\<rparr>"

section \<open>Local actions of the command-line program\<close>

subsection \<open>Tables and settings\<close>







text \<open>
  The chain and the ethers helpers behind the local actions; each returns its value or
  throws. \<open>token_info rpc address\<close> is \<^verbatim>\<open>contract.decimals()\<close> and \<^verbatim>\<open>contract.symbol()\<close>;
  \<open>submit call\<close> is the outcome of a call that sends a transaction: its hash, or a throw.
\<close>

record chain =
  token_info :: "string \<Rightarrow> string \<Rightarrow> error + nat \<times> string"
  parseUnits :: "string \<Rightarrow> nat \<Rightarrow> error + int"
  estimateGas :: "string \<Rightarrow> string \<Rightarrow> int \<Rightarrow> error + int"
  BigInt :: "string \<Rightarrow> error + int"
  allowance :: "string \<Rightarrow> string \<Rightarrow> string \<Rightarrow> string \<Rightarrow> error + int"
  submit :: "effect \<Rightarrow> error + string"

text \<open>The answer to a \<^verbatim>\<open>rawlist\<close> prompt that also offers \<^verbatim>\<open>BACK\<close>.\<close>

datatype 'a choice = Chosen 'a | Back




subsection \<open>cli.js: transferAsset\<close>


datatype dest = Manual_address_entry | My_other_wallets









subsection \<open>cli.js: swapToken\<close>









subsection \<open>showPrivateKey (src/unnamed/part\_000)\<close>


subsection \<open>The action gate\<close>

text \<open>
  The effects that move funds, disclose a secret or grant a capability to the peer.
\<close>

fun critical :: "effect \<Rightarrow> bool" where
  "critical (Sign_message d) = True"
| "critical (Sign_typed_data d t m) = True"
| "critical (Send_transaction u t) = True"
| "critical (Approve_session i n) = True"
| "critical (Token_transfer u t r v) = True"
| "critical (Send_native u r v g) = True"
| "critical (Token_approve u t r) = True"
| "critical (Swap_tokens u r v p t) = True"
| "critical (Reveal_key k) = True"
| "critical e = False"


text \<open>The yes/no prompts of a run.\<close>

fun confirms :: "effect list \<Rightarrow> (question \<times> answer) list" where
  "confirms [] = []"
| "confirms (Confirm q a # es) = (q, a) # confirms es"
| "confirms (e # es) = confirms es"







section \<open>Properties of the vault\<close>

subsection \<open>unlockWallets\<close>

lemma unlock_loop_ring_grows:
  "unlock_loop dec password raw ring = (r, ring') \<Longrightarrow> \<exists>more. ring' = ring @ more"
proof (induction raw arbitrary: ring)
  case Nil
  then show ?case by simp
next
  case (Cons w ws)
  then show ?case by (fastforce split: if_splits sum.splits)
qed

text \<open>Two records of which the first decrypts and the second does not: the call throws and
  the first record's wallet stays in the key ring.\<close>

lemma unlockWallets_second_fails:
  assumes "\<not> truthy (rw_privateKey a)" "dec (rw_data a) password = Inr w"
    and "\<not> truthy (rw_privateKey b)" "dec (rw_data b) password = Inl e"
  shows "unlockWallets dec (Some (a # b # rest)) password ring =
           (Inl e, [\<lparr>dw_name = rw_name a, dw_wallet = w\<rparr>])"
  using assms by (simp add: unlockWallets_def)

text \<open>
  Claim C2 (unlock is all-or-nothing: when a record fails to decrypt, the key ring is left
  empty). The code does not do that. With two records of which the first decrypts under
  the password and the second does not, \<open>unlockWallets\<close> throws the library's error and
  leaves the first record's wallet in \<^verbatim>\<open>DECRYPTED_WALLETS\<close>.
\<close>

theorem unlockWallets_leaves_partial_ring:
  "unlockWallets toy_decrypt
     (Some [enc_record ''A'' ''pk1'', enc_record ''B'' ''qk2'']) ''p'' [] =
   (Inl (Lib_error ''incorrect password''),
    [\<lparr>dw_name = ''A'', dw_wallet = \<lparr>address = ''1k'', privateKey = ''k1''\<rparr>\<rparr>])"
  by (simp add: unlockWallets_def enc_record_def)

subsection \<open>initializeWallets\<close>

lemma unlock_attempts_wrong:
  "wrong_password dec raw (typed (asked s)) \<Longrightarrow> \<not> truthy (SESSION_PASSWORD s) \<Longrightarrow>
   unlock_attempts dec typed raw (Suc n) s =
     unlock_attempts dec typed raw n
       (s\<lparr>SESSION_PASSWORD := Some (typed (asked s)), asked := Suc (asked s),
          DECRYPTED_WALLETS := snd (decrypt_existing dec (typed (asked s)) raw []),
          SESSION_PASSWORD := None\<rparr>)"
  by (auto simp: wrong_password_def getPassword_def split: prod.splits sum.splits)

lemma unlock_attempts_right:
  "\<not> wrong_password dec raw (typed (asked s)) \<Longrightarrow> \<not> truthy (SESSION_PASSWORD s) \<Longrightarrow>
   unlock_attempts dec typed raw (Suc n) s =
     (Suc n, s\<lparr>SESSION_PASSWORD := Some (typed (asked s)), asked := Suc (asked s),
        DECRYPTED_WALLETS := snd (decrypt_existing dec (typed (asked s)) raw [])\<rparr>)"
  by (auto simp: wrong_password_def getPassword_def split: prod.splits sum.splits)

lemma decrypt_existing_names:
  "decrypt_existing dec pw raw ring = (Inr u, ring') \<Longrightarrow>
   map dw_name ring' = map dw_name ring @ map rw_name raw"
  by (induction raw arbitrary: ring) (auto split: sum.splits)

text \<open>
  Claim C8 (the unlock retry budget is exactly three attempts). \<open>initializeWallets\<close> on an
  encrypted, non-empty wallets file with no session password yet: the process exits
  fatally exactly when the first three passwords typed are all wrong, and otherwise the
  wallets are unlocked; a wrong password leads to the next prompt, and the number of
  prompts shown is the position of the first right password, at most three.
\<close>

theorem retry_budget_is_three:
  assumes wfile: "WALLETS_FILE s = Some raw" and ne: "raw \<noteq> []"
    and enc: "\<not> truthy (rw_privateKey (hd raw))"
    and nopw: "SESSION_PASSWORD s = None"
  shows "fst (initializeWallets dec typed s) =
           (if wrong_password dec raw (typed (asked s)) \<and>
               wrong_password dec raw (typed (asked s + 1)) \<and>
               wrong_password dec raw (typed (asked s + 2))
            then Fatal_exit else Unlocked)
         \<and> asked (snd (initializeWallets dec typed s)) =
           asked s + (if \<not> wrong_password dec raw (typed (asked s)) then 1
                      else if \<not> wrong_password dec raw (typed (asked s + 1)) then 2
                      else 3)"
proof -
  have three: "(3::nat) = Suc (Suc (Suc 0))" by simp
  have init: "initializeWallets dec typed s =
      (case unlock_attempts dec typed raw (Suc (Suc (Suc 0))) s of
         (attempts, s') \<Rightarrow> if attempts = 0 then (Fatal_exit, s') else (Unlocked, s'))"
    using wfile ne enc by (simp add: initializeWallets_def loadWalletsRaw_def three)
  have t0: "\<not> truthy (SESSION_PASSWORD s)" using nopw by simp
  show ?thesis
  proof (cases "wrong_password dec raw (typed (asked s))")
    case False
    then show ?thesis using t0
      by (simp add: init unlock_attempts_right del: unlock_attempts.simps(2))
  next
    case w1: True
    show ?thesis
    proof (cases "wrong_password dec raw (typed (Suc (asked s)))")
      case False
      then show ?thesis using t0 w1
        by (simp add: init unlock_attempts_wrong unlock_attempts_right
            del: unlock_attempts.simps(2))
    next
      case w2: True
      show ?thesis
      proof (cases "wrong_password dec raw (typed (Suc (Suc (asked s))))")
        case False
        then show ?thesis using t0 w1 w2
          by (simp add: init unlock_attempts_wrong unlock_attempts_right
              del: unlock_attempts.simps(2))
      next
        case True
        then show ?thesis using t0 w1 w2
          by (simp add: init unlock_attempts_wrong del: unlock_attempts.simps(2))
      qed
    qed
  qed
qed

theorem retry_budget_is_three_witness:
  "fst (initializeWallets toy_decrypt (\<lambda>k. ''q'') two_wallets) = Fatal_exit \<and>
   asked (snd (initializeWallets toy_decrypt (\<lambda>k. ''q'') two_wallets)) = 3 \<and>
   fst (initializeWallets toy_decrypt (\<lambda>k. if k = 2 then ''p'' else ''q'') two_wallets)
     = Unlocked \<and>
   asked (snd (initializeWallets toy_decrypt (\<lambda>k. if k = 2 then ''p'' else ''q'')
     two_wallets)) = 3 \<and>
   fst (initializeWallets toy_decrypt (\<lambda>k. if k = 1 then ''p'' else ''q'') two_wallets)
     = Unlocked \<and>
   asked (snd (initializeWallets toy_decrypt (\<lambda>k. if k = 1 then ''p'' else ''q'')
     two_wallets)) = 2"
proof -
  let ?raw = "[enc_record ''A'' ''pk1'', enc_record ''B'' ''pk2'']"
  have f: "WALLETS_FILE two_wallets = Some ?raw" by (simp add: two_wallets_def)
  have n: "?raw \<noteq> []" by simp
  have e: "\<not> truthy (rw_privateKey (hd ?raw))" by (simp add: enc_record_def)
  have p: "SESSION_PASSWORD two_wallets = None" by (simp add: two_wallets_def)
  have a: "asked two_wallets = 0" by (simp add: two_wallets_def)
  have wq: "wrong_password toy_decrypt ?raw ''q''"
    by (simp add: wrong_password_def enc_record_def)
  have wp: "\<not> wrong_password toy_decrypt ?raw ''p''"
    by (simp add: wrong_password_def enc_record_def)
  show ?thesis
    using retry_budget_is_three [OF f n e p, of toy_decrypt "\<lambda>k. ''q''"]
      retry_budget_is_three [OF f n e p, of toy_decrypt "\<lambda>k. if k = 2 then ''p'' else ''q''"]
      retry_budget_is_three [OF f n e p, of toy_decrypt "\<lambda>k. if k = 1 then ''p'' else ''q''"]
    by (simp add: a wq wp)
qed

subsection \<open>restoreWallet\<close>

lemma mset_splice1:
  assumes "i < length xs"
  shows "mset (splice1 i xs) + {#xs ! i#} = mset xs"
proof -
  from assms have "xs = take i xs @ xs ! i # drop (Suc i) xs" by (rule id_take_nth_drop)
  then have "mset xs = mset (take i xs @ xs ! i # drop (Suc i) xs)" by simp
  then show ?thesis by (simp add: splice1_def)
qed

lemma restoreWallet_pick:
  assumes "TRASH_FILE s = Some trash" "WALLETS_FILE s = Some active" "i < length trash"
  shows "TRASH_FILE (snd (restoreWallet dec typed (Pick i) s)) = Some (splice1 i trash)"
    and "WALLETS_FILE (snd (restoreWallet dec typed (Pick i) s)) = Some (active @ [trash ! i])"
  using assms
  by (auto simp: restoreWallet_def getPassword_def Let_def split: sum.splits prod.splits)

lemma restoreWallet_conserves:
  assumes "TRASH_FILE s = Some trash" "WALLETS_FILE s = Some active"
  shows "\<exists>more trash'.
           WALLETS_FILE (snd (restoreWallet dec typed c s)) = Some (active @ more) \<and>
           TRASH_FILE (snd (restoreWallet dec typed c s)) = Some trash' \<and>
           mset (active @ more) + mset trash' = mset active + mset trash"
proof (cases c)
  case BACK
  then show ?thesis using assms by (simp add: restoreWallet_def)
next
  case (Pick i)
  show ?thesis
  proof (cases "i < length trash")
    case True
    then show ?thesis
      using restoreWallet_pick [OF assms True, of dec typed] mset_splice1 [OF True] Pick
      by (simp add: add.assoc add.commute)
  next
    case False
    then show ?thesis using assms Pick by (simp add: restoreWallet_def)
  qed
qed

text \<open>
  Claim C9 (restore is idempotent with respect to the trash entry). With both files
  present and the \<open>i\<close>-th trash entry chosen, \<open>restoreWallet\<close> writes the trash without
  that entry (one entry shorter) and the active records with the entry appended. Whatever
  is chosen in a second call of \<open>restoreWallet\<close>, the active records still begin with the
  first call's result, records are only moved between the two files, never copied, and
  so the active records hold the restored record at most as often as active records and
  trash held it together at the start.
\<close>

theorem restore_moves_entry_once:
  assumes t: "TRASH_FILE s = Some trash" and a: "WALLETS_FILE s = Some active"
    and i: "i < length trash"
  shows "TRASH_FILE (snd (restoreWallet dec typed (Pick i) s)) = Some (splice1 i trash)
       \<and> WALLETS_FILE (snd (restoreWallet dec typed (Pick i) s)) = Some (active @ [trash ! i])
       \<and> length (splice1 i trash) + 1 = length trash
       \<and> (\<exists>more trash2.
             WALLETS_FILE (snd (restoreWallet dec2 typed2 c
                (snd (restoreWallet dec typed (Pick i) s)))) = Some (active @ [trash ! i] @ more)
           \<and> TRASH_FILE (snd (restoreWallet dec2 typed2 c
                (snd (restoreWallet dec typed (Pick i) s)))) = Some trash2
           \<and> mset (active @ [trash ! i] @ more) + mset trash2 = mset active + mset trash
           \<and> count (mset (active @ [trash ! i] @ more)) (trash ! i)
               \<le> count (mset active) (trash ! i) + count (mset trash) (trash ! i))"
proof -
  let ?s1 = "snd (restoreWallet dec typed (Pick i) s)"
  note p = restoreWallet_pick [OF t a i, of dec typed]
  have len: "length (splice1 i trash) + 1 = length trash"
    using i by (simp add: splice1_def)
  obtain more trash2 where
    w2: "WALLETS_FILE (snd (restoreWallet dec2 typed2 c ?s1))
           = Some ((active @ [trash ! i]) @ more)" and
    t2: "TRASH_FILE (snd (restoreWallet dec2 typed2 c ?s1)) = Some trash2" and
    m2: "mset ((active @ [trash ! i]) @ more) + mset trash2
           = mset (active @ [trash ! i]) + mset (splice1 i trash)"
    using restoreWallet_conserves [OF p(1) p(2), of dec2 typed2 c] by blast
  let ?active2 = "active @ [trash ! i] @ more"
  have m: "mset ?active2 + mset trash2 = mset active + mset trash"
    using m2 mset_splice1 [OF i] by (simp add: add.assoc add.commute)
  have "count (mset ?active2) (trash ! i) \<le> count (mset ?active2 + mset trash2) (trash ! i)"
    by simp
  then have c: "count (mset ?active2) (trash ! i)
      \<le> count (mset active) (trash ! i) + count (mset trash) (trash ! i)"
    by (simp only: m count_union)
  show ?thesis using p len w2 t2 m c by auto
qed

theorem restore_moves_entry_once_witness:
  "TRASH_FILE with_trash = Some [enc_record ''Main'' ''pk2'', enc_record ''Old'' ''pk3''] \<and>
   WALLETS_FILE with_trash = Some [enc_record ''A'' ''pk1''] \<and>
   (0::nat) < length [enc_record ''Main'' ''pk2'', enc_record ''Old'' ''pk3''] \<and>
   TRASH_FILE (snd (restoreWallet toy_decrypt (\<lambda>k. ''p'') (Pick 0) with_trash))
     = Some [enc_record ''Old'' ''pk3''] \<and>
   WALLETS_FILE (snd (restoreWallet toy_decrypt (\<lambda>k. ''p'') (Pick 0) with_trash))
     = Some [enc_record ''A'' ''pk1'', enc_record ''Main'' ''pk2''] \<and>
   (\<exists>more trash2.
      WALLETS_FILE (snd (restoreWallet toy_decrypt (\<lambda>k. ''p'') (Pick 0)
         (snd (restoreWallet toy_decrypt (\<lambda>k. ''p'') (Pick 0) with_trash))))
        = Some ([enc_record ''A'' ''pk1'', enc_record ''Main'' ''pk2''] @ more) \<and>
      TRASH_FILE (snd (restoreWallet toy_decrypt (\<lambda>k. ''p'') (Pick 0)
         (snd (restoreWallet toy_decrypt (\<lambda>k. ''p'') (Pick 0) with_trash)))) = Some trash2 \<and>
      count (mset ([enc_record ''A'' ''pk1'', enc_record ''Main'' ''pk2''] @ more))
        (enc_record ''Main'' ''pk2'') \<le> 1)"
proof -
  let ?trash = "[enc_record ''Main'' ''pk2'', enc_record ''Old'' ''pk3'']"
  let ?active = "[enc_record ''A'' ''pk1'']"
  have t: "TRASH_FILE with_trash = Some ?trash" by (simp add: with_trash_def)
  have a: "WALLETS_FILE with_trash = Some ?active" by (simp add: with_trash_def)
  have i: "(0::nat) < length ?trash" by simp
  have ne: "enc_record ''A'' ''pk1'' \<noteq> enc_record ''Main'' ''pk2''"
    "enc_record ''Old'' ''pk3'' \<noteq> enc_record ''Main'' ''pk2''"
    by (simp_all add: enc_record_def)
  show ?thesis
    using restore_moves_entry_once [OF t a i, of toy_decrypt "\<lambda>k. ''p''" toy_decrypt
        "\<lambda>k. ''p''" "Pick 0"] t a ne
    by (simp add: splice1_def) blast
qed

section \<open>Properties of the handlers and local actions\<close>

subsection \<open>Confirmation before critical effects\<close>


























subsection \<open>What the local transfer submits, and when\<close>











subsection \<open>The allowance approval of the local swap\<close>












subsection \<open>Responses\<close>

















lemma headless_asks_nothing:
  "confirms (headless_session_proposal w p) = []"
  "list_ex critical (headless_session_proposal w p)"
  by (simp_all add: headless_session_proposal_def)



subsection \<open>Session proposals\<close>

lemma select_signer_address:
  "select_signer ring walletAddress = Inr w \<Longrightarrow> address (dw_wallet w) = walletAddress"
  by (auto simp: select_signer_def split: option.splits dest: find_Some_iff [THEN iffD1])

lemma address_part_account:
  "CHR '':'' \<notin> set a \<Longrightarrow> address_part (chain @ '':'' @ a) = a"
proof -
  assume c: "CHR '':'' \<notin> set a"
  have tw: "takeWhile (\<lambda>c. c \<noteq> CHR '':'') (rev a) = rev a"
    using c by (intro takeWhile_eq_all_conv [THEN iffD2]) auto
  show ?thesis by (simp add: address_part_def takeWhile_tail tw)
qed

lemma approved_namespaces_optional_wins:
  assumes "or_else (optionalNamespaces p) Map.empty key = Some e"
  shows "approved_namespaces a p key = Some (build_namespace a e)"
  using assms by (simp add: approved_namespaces_def allNamespaces_def)

lemma approved_namespaces_required_only:
  assumes "or_else (optionalNamespaces p) Map.empty key = None"
    and "or_else (requiredNamespaces p) Map.empty key = Some e"
  shows "approved_namespaces a p key = Some (build_namespace a e)"
  using assms by (simp add: approved_namespaces_def allNamespaces_def map_add_def)

lemma dom_approved_namespaces:
  "dom (approved_namespaces a p) =
     dom (or_else (requiredNamespaces p) Map.empty) \<union> dom (or_else (optionalNamespaces p) Map.empty)"
  by (auto simp: approved_namespaces_def allNamespaces_def dom_def map_add_def split: option.splits)

lemma accounts_build_namespace:
  "accounts (build_namespace a e) =
     map (\<lambda>chain. chain @ '':'' @ a) (or_else (chains e) [''eip155:1''])"
  by (simp add: build_namespace_def account_of_def)

text \<open>
  Claim C1 as stated (every requested namespace gets the account of each requested chain
  identifier) fails. When the key \<open>eip155\<close> is in both objects, the chain
  \<^verbatim>\<open>eip155:1\<close> of the required entry gets no account; and a namespace requested without a
  list of chains gets the account of \<^verbatim>\<open>eip155:1\<close>, a chain that the peer did not name.
\<close>

theorem requested_chain_without_account:
  "map_option accounts (approved_namespaces ''0xBB'' both_proposal ''eip155'')
     = Some [''eip155:56:0xBB'']
   \<and> ''eip155:1:0xBB'' \<notin> set [''eip155:56:0xBB'']
   \<and> map_option accounts (approved_namespaces ''0xBB'' two_key_proposal ''cosmos'')
     = Some [''eip155:1:0xBB'']"
  by (simp add: approved_namespaces_def allNamespaces_def both_proposal_def two_key_proposal_def
      or_else_def build_namespace_def account_of_def)

text \<open>
  Claim C1, amended. Let the user pick \<open>walletAddress\<close> from the key ring, and let the
  proposal handler of cli.js approve the namespaces \<open>ns\<close>. Then the user has answered
  \<open>Yes\<close>, the bound wallet's address is the one picked, and \<open>ns\<close> has exactly the keys of
  the required and of the optional namespaces. Every account of \<open>ns\<close> is
  \<open>chain:walletAddress\<close>, with the picked address after the last colon, for a chain that
  the peer listed under that key in its required or in its optional namespaces
  (\<^verbatim>\<open>eip155:1\<close> for an entry that lists no chains). For a key that is in one of the two
  objects only, the accounts are exactly those of the chains of its entry, in order. The
  approved namespaces are the same for any key ring in which the address selects a
  wallet: no other identity of the ring takes part. The headless script, holding a
  wallet with this address, approves the same namespaces.
\<close>

theorem accounts_use_bound_address:
  assumes sel: "select_signer ring walletAddress = Inr selectedWalletData"
    and ap: "Approve_session i ns \<in> set (on_session_proposal selectedWalletData p approve)"
  shows "approve = Yes
       \<and> address (dw_wallet selectedWalletData) = walletAddress
       \<and> dom ns = dom (or_else (requiredNamespaces p) Map.empty)
                    \<union> dom (or_else (optionalNamespaces p) Map.empty)
       \<and> (\<forall>key n account. ns key = Some n \<and> account \<in> set (accounts n) \<longrightarrow>
             (\<exists>e chain. (or_else (requiredNamespaces p) Map.empty key = Some e
                           \<or> or_else (optionalNamespaces p) Map.empty key = Some e)
                  \<and> chain \<in> set (or_else (chains e) [''eip155:1''])
                  \<and> account = chain @ '':'' @ walletAddress)
             \<and> (CHR '':'' \<notin> set walletAddress \<longrightarrow> address_part account = walletAddress))
       \<and> (\<forall>key e. or_else (requiredNamespaces p) Map.empty key = Some e
                     \<and> or_else (optionalNamespaces p) Map.empty key = None
                   \<or> or_else (optionalNamespaces p) Map.empty key = Some e
                     \<and> or_else (requiredNamespaces p) Map.empty key = None \<longrightarrow>
             (\<exists>n. ns key = Some n
                  \<and> accounts n =
                      map (\<lambda>chain. chain @ '':'' @ walletAddress)
                        (or_else (chains e) [''eip155:1''])))
       \<and> (\<forall>ring' other. select_signer ring' walletAddress = Inr other \<longrightarrow>
             approved_namespaces (address (dw_wallet other)) p = ns)
       \<and> (\<forall>hw. address hw = walletAddress \<longrightarrow>
             Approve_session i ns \<in> set (headless_session_proposal hw p))"
proof -
  have addr: "address (dw_wallet selectedWalletData) = walletAddress"
    using sel by (rule select_signer_address)
  have yes: "approve = Yes" using ap by (cases approve) (auto simp: on_session_proposal_def)
  have ns: "ns = approved_namespaces walletAddress p"
    using ap yes addr by (auto simp: on_session_proposal_def)
  have i: "i = proposal_id p"
    using ap yes by (auto simp: on_session_proposal_def)
  have d: "dom ns = dom (or_else (requiredNamespaces p) Map.empty)
                    \<union> dom (or_else (optionalNamespaces p) Map.empty)"
    by (simp add: ns dom_approved_namespaces)
  have each: "\<forall>key n account. ns key = Some n \<and> account \<in> set (accounts n) \<longrightarrow>
             (\<exists>e chain. (or_else (requiredNamespaces p) Map.empty key = Some e
                           \<or> or_else (optionalNamespaces p) Map.empty key = Some e)
                  \<and> chain \<in> set (or_else (chains e) [''eip155:1''])
                  \<and> account = chain @ '':'' @ walletAddress)
             \<and> (CHR '':'' \<notin> set walletAddress \<longrightarrow> address_part account = walletAddress)"
  proof (intro allI impI)
    fix key n account
    assume k: "ns key = Some n \<and> account \<in> set (accounts n)"
    obtain e where e: "allNamespaces p key = Some e" and n: "n = build_namespace walletAddress e"
      using k ns by (auto simp: approved_namespaces_def)
    have src: "or_else (requiredNamespaces p) Map.empty key = Some e
        \<or> or_else (optionalNamespaces p) Map.empty key = Some e"
      using e by (auto simp: allNamespaces_def map_add_Some_iff)
    have "account \<in> set (map (\<lambda>chain. chain @ '':'' @ walletAddress)
        (or_else (chains e) [''eip155:1'']))"
      using k n by (simp add: accounts_build_namespace)
    then obtain chain where c: "chain \<in> set (or_else (chains e) [''eip155:1''])"
      "account = chain @ '':'' @ walletAddress" by auto
    have part: "CHR '':'' \<notin> set walletAddress \<longrightarrow> address_part account = walletAddress"
      using c(2) address_part_account by simp
    show "(\<exists>e chain. (or_else (requiredNamespaces p) Map.empty key = Some e
                           \<or> or_else (optionalNamespaces p) Map.empty key = Some e)
                  \<and> chain \<in> set (or_else (chains e) [''eip155:1''])
                  \<and> account = chain @ '':'' @ walletAddress)
             \<and> (CHR '':'' \<notin> set walletAddress \<longrightarrow> address_part account = walletAddress)"
      using src c part by blast
  qed
  have single: "\<forall>key e. or_else (requiredNamespaces p) Map.empty key = Some e
                     \<and> or_else (optionalNamespaces p) Map.empty key = None
                   \<or> or_else (optionalNamespaces p) Map.empty key = Some e
                     \<and> or_else (requiredNamespaces p) Map.empty key = None \<longrightarrow>
             (\<exists>n. ns key = Some n
                  \<and> accounts n =
                      map (\<lambda>chain. chain @ '':'' @ walletAddress)
                        (or_else (chains e) [''eip155:1'']))"
    using approved_namespaces_optional_wins [of p _ _ walletAddress]
      approved_namespaces_required_only [of p _ _ walletAddress]
    by (auto simp: ns accounts_build_namespace)
  have indep: "\<forall>ring' other. select_signer ring' walletAddress = Inr other \<longrightarrow>
      approved_namespaces (address (dw_wallet other)) p = ns"
    using ns select_signer_address by blast
  have headless: "\<forall>hw. address hw = walletAddress \<longrightarrow>
      Approve_session i ns \<in> set (headless_session_proposal hw p)"
    by (simp add: headless_session_proposal_def ns i)
  show ?thesis
    by (intro conjI) (rule yes addr d each single indep headless)+
qed

theorem accounts_use_bound_address_witness:
  "select_signer [other_wallet, bound_wallet] ''0xBB'' = Inr bound_wallet
   \<and> Approve_session 3 (approved_namespaces ''0xBB'' two_key_proposal)
       \<in> set (on_session_proposal bound_wallet two_key_proposal Yes)
   \<and> dom (approved_namespaces ''0xBB'' two_key_proposal) = {''eip155'', ''cosmos''}
   \<and> (\<exists>n. approved_namespaces ''0xBB'' two_key_proposal ''eip155'' = Some n
          \<and> accounts n = [''eip155:1:0xBB'', ''eip155:56:0xBB''])
   \<and> (\<exists>n. approved_namespaces ''0xBB'' two_key_proposal ''cosmos'' = Some n
          \<and> accounts n = [''eip155:1:0xBB''])
   \<and> address_part ''eip155:56:0xBB'' = ''0xBB''
   \<and> approved_namespaces (address (dw_wallet bound_wallet)) two_key_proposal
       = approved_namespaces ''0xBB'' two_key_proposal
   \<and> Approve_session 3 (approved_namespaces ''0xBB'' two_key_proposal)
       \<in> set (headless_session_proposal (dw_wallet bound_wallet) two_key_proposal)"
proof -
  let ?ns = "approved_namespaces ''0xBB'' two_key_proposal"
  let ?req = "\<lparr>chains = Some [''eip155:1'', ''eip155:56''], methods = Some [''personal_sign''],
           events = None\<rparr>"
  let ?opt = "\<lparr>chains = None, methods = Some [''cosmos_signDirect''], events = None\<rparr>"
  have sel: "select_signer [other_wallet, bound_wallet] ''0xBB'' = Inr bound_wallet"
    by (simp add: select_signer_def other_wallet_def bound_wallet_def)
  have sel': "select_signer [bound_wallet] ''0xBB'' = Inr bound_wallet"
    by (simp add: select_signer_def bound_wallet_def)
  have ap: "Approve_session 3 ?ns \<in> set (on_session_proposal bound_wallet two_key_proposal Yes)"
    by (simp add: on_session_proposal_def bound_wallet_def two_key_proposal_def)
  note inst = accounts_use_bound_address [OF sel ap]
  have r: "or_else (requiredNamespaces two_key_proposal) Map.empty ''eip155'' = Some ?req
      \<and> or_else (optionalNamespaces two_key_proposal) Map.empty ''eip155'' = None"
    by (simp add: two_key_proposal_def or_else_def)
  have o: "or_else (optionalNamespaces two_key_proposal) Map.empty ''cosmos'' = Some ?opt
      \<and> or_else (requiredNamespaces two_key_proposal) Map.empty ''cosmos'' = None"
    by (simp add: two_key_proposal_def or_else_def)
  from inst have d: "dom ?ns = dom (or_else (requiredNamespaces two_key_proposal) Map.empty)
      \<union> dom (or_else (optionalNamespaces two_key_proposal) Map.empty)" by blast
  have "dom (or_else (requiredNamespaces two_key_proposal) Map.empty)
      \<union> dom (or_else (optionalNamespaces two_key_proposal) Map.empty) = {''eip155'', ''cosmos''}"
    by (auto simp: two_key_proposal_def or_else_def)
  with d have d': "dom ?ns = {''eip155'', ''cosmos''}" by (simp only:)
  from inst r have "\<exists>n. ?ns ''eip155'' = Some n
      \<and> accounts n = map (\<lambda>chain. chain @ '':'' @ ''0xBB'') (or_else (chains ?req) [''eip155:1''])"
    by blast
  then have a1: "\<exists>n. ?ns ''eip155'' = Some n
      \<and> accounts n = [''eip155:1:0xBB'', ''eip155:56:0xBB'']"
    by (simp add: or_else_def)
  from inst o have "\<exists>n. ?ns ''cosmos'' = Some n
      \<and> accounts n = map (\<lambda>chain. chain @ '':'' @ ''0xBB'') (or_else (chains ?opt) [''eip155:1''])"
    by blast
  then have a2: "\<exists>n. ?ns ''cosmos'' = Some n \<and> accounts n = [''eip155:1:0xBB'']"
    by (simp add: or_else_def)
  from a1 obtain n where n: "?ns ''eip155'' = Some n"
    "accounts n = [''eip155:1:0xBB'', ''eip155:56:0xBB'']" by blast
  have m: "?ns ''eip155'' = Some n \<and> ''eip155:56:0xBB'' \<in> set (accounts n)"
    using n by simp
  have colon: "CHR '':'' \<notin> set ''0xBB''" by simp
  from inst m colon have part: "address_part ''eip155:56:0xBB'' = ''0xBB''" by blast
  from inst sel' have same: "approved_namespaces (address (dw_wallet bound_wallet)) two_key_proposal
      = ?ns" by blast
  have "address (dw_wallet bound_wallet) = ''0xBB''" by (simp add: bound_wallet_def)
  with inst have hl: "Approve_session 3 ?ns
      \<in> set (headless_session_proposal (dw_wallet bound_wallet) two_key_proposal)" by blast
  show ?thesis
    by (intro conjI) (rule sel ap d' a1 a2 part same hl)+
qed

text \<open>
  Claim C7 (the methods and events of an approved namespace are the union of what the
  peer listed under the key in its required and in its optional namespaces; no required
  method or event is dropped when the key is in both). The code does not do that. For a
  proposal with the key \<open>eip155\<close> in both objects, requiring the method
  \<^verbatim>\<open>eth_sendTransaction\<close> and the event \<^verbatim>\<open>chainChanged\<close> on \<^verbatim>\<open>eip155:1\<close>, and optionally
  asking for \<^verbatim>\<open>personal_sign\<close> and \<^verbatim>\<open>accountsChanged\<close> on \<^verbatim>\<open>eip155:56\<close>, the approved
  namespace holds the optional entry only: the required method, event and chain are gone.
\<close>

theorem required_methods_dropped:
  "approved_namespaces ''0xBB'' both_proposal ''eip155'' =
     Some \<lparr>accounts = [''eip155:56:0xBB''], ns_methods = [''personal_sign''],
           ns_events = [''accountsChanged'']\<rparr>"
  by (simp add: approved_namespaces_def allNamespaces_def both_proposal_def or_else_def
      build_namespace_def account_of_def)

subsection \<open>Signing requests\<close>

text \<open>
  Claim C5 (a rejected signing request is answered with a structured error for its
  request id). The code does not do that. For every request and every collaborator, the
  run of the cli.js handler on the answer \<open>No\<close> is the announcement, the prompt and the
  line \<^verbatim>\<open>Request rejected locally.\<close>; nothing is sent to the peer.
\<close>

theorem rejected_request_gets_no_response:
  "on_session_request env event No send =
     [Log (New_request (request_method (request event))),
      Confirm (Ask_approve (request_method (request event))) No,
      Log Rejected_locally]"
  by (simp add: on_session_request_def)

lemma dispatch_sends_to_RPC_URL:
  "Send_transaction url t \<in> set (fst (dispatch env req send)) \<Longrightarrow> url = RPC_URL"
  by (auto simp: dispatch_def personal_sign_def sign_and_log_def signTypedData_branch_def
      eth_sendTransaction_def Let_def split: if_splits sum.splits json.splits prod.splits)

lemma on_session_request_sends_to_RPC_URL:
  assumes "Send_transaction url t \<in> set (on_session_request env event sign send)"
  shows "url = RPC_URL"
proof -
  obtain effects out where d: "dispatch env (request event) send = (effects, out)"
    by (cases "dispatch env (request event) send")
  have "Send_transaction url t \<in> set effects"
    using assms d by (cases out) (auto simp: on_session_request_def split: if_splits)
  then show ?thesis using dispatch_sends_to_RPC_URL [of url t env "request event" send] d by simp
qed

text \<open>
  Claim C10 (an approved \<^verbatim>\<open>eth_sendTransaction\<close> is broadcast through the hard-coded
  mainnet endpoint, whatever chain the session or the request names). Every transaction
  that the cli.js request handler sends goes to \<^verbatim>\<open>https://eth.llamarpc.com\<close>; the run does
  not depend on the event's chain id; and an \<^verbatim>\<open>eth_sendTransaction\<close> request with readable
  parameters, approved at both prompts, is sent there.
\<close>

theorem sendTransaction_goes_to_mainnet_rpc:
  "(\<forall>url t. Send_transaction url t \<in> set (on_session_request env event sign send) \<longrightarrow>
      url = ''https://eth.llamarpc.com'')
   \<and> on_session_request env (event\<lparr>chainId := c\<rparr>) sign send =
       on_session_request env event sign send
   \<and> (request_method (request event) = ''eth_sendTransaction'' \<longrightarrow>
       tx_of (param_at (request_params (request event)) 0) = Inr t \<longrightarrow>
       Send_transaction ''https://eth.llamarpc.com'' t
         \<in> set (on_session_request env event Yes Yes))"
proof -
  have a: "\<forall>url t. Send_transaction url t \<in> set (on_session_request env event sign send) \<longrightarrow>
      url = ''https://eth.llamarpc.com''"
    using on_session_request_sends_to_RPC_URL [of _ _ env event sign send]
    by (simp add: RPC_URL_def)
  have b: "on_session_request env (event\<lparr>chainId := c\<rparr>) sign send =
       on_session_request env event sign send"
    by (simp add: on_session_request_def split: prod.splits outcome.splits)
  have c: "request_method (request event) = ''eth_sendTransaction'' \<longrightarrow>
       tx_of (param_at (request_params (request event)) 0) = Inr t \<longrightarrow>
       Send_transaction ''https://eth.llamarpc.com'' t
         \<in> set (on_session_request env event Yes Yes)"
    by (auto simp: on_session_request_def dispatch_def startsWith_def eth_sendTransaction_def
        RPC_URL_def Let_def split: sum.splits)
  show ?thesis using a b c by blast
qed

theorem sendTransaction_goes_to_mainnet_rpc_witness:
  "request_method (request send_request) = ''eth_sendTransaction'' \<and>
   chainId send_request = ''eip155:56'' \<and>
   tx_of (param_at (request_params (request send_request)) 0) =
     Inr \<lparr>tx_to = JStr ''0xCC'', tx_value = JStr ''0x1'', tx_data = JUndefined,
          tx_gasLimit = JUndefined\<rparr> \<and>
   Send_transaction ''https://eth.llamarpc.com''
     \<lparr>tx_to = JStr ''0xCC'', tx_value = JStr ''0x1'', tx_data = JUndefined,
      tx_gasLimit = JUndefined\<rparr>
     \<in> set (on_session_request sample_env send_request Yes Yes)"
proof -
  have m: "request_method (request send_request) = ''eth_sendTransaction''"
    by (simp add: send_request_def)
  have c: "chainId send_request = ''eip155:56''" by (simp add: send_request_def)
  have t: "tx_of (param_at (request_params (request send_request)) 0) =
     Inr \<lparr>tx_to = JStr ''0xCC'', tx_value = JStr ''0x1'', tx_data = JUndefined,
          tx_gasLimit = JUndefined\<rparr>"
    by (simp add: send_request_def param_at_def tx_of_def)
  show ?thesis
    using sendTransaction_goes_to_mainnet_rpc [of sample_env send_request Yes Yes "''eip155:56''"
        "\<lparr>tx_to = JStr ''0xCC'', tx_value = JStr ''0x1'', tx_data = JUndefined,
          tx_gasLimit = JUndefined\<rparr>"] m c t
    by simp
qed

lemma hello_bytes:
  "getBytes (JStr ''0x48656c6c6f'') = Inr [0x48, 0x65, 0x6c, 0x6c, 0x6f]"
  by (simp add: getBytes_def hex_digit_def)

lemma hello_text: "text_of [0x48, 0x65, 0x6c, 0x6c, 0x6f] = ''Hello''"
  by code_simp

lemma hello_is_hex: "isHexString (JStr ''0x48656c6c6f'')"
  by (simp add: isHexString_def hex_digit_def)

lemma personal_sign_hex:
  assumes "isHexString (param_at ps 0)"
  shows "personal_sign env ps =
     (case getBytes (param_at ps 0) of
        Inl e \<Rightarrow> ([], Threw e)
      | Inr bs \<Rightarrow>
          if valid_utf8 bs then sign_and_log env (Bytes bs) (JStr (text_of bs))
          else ([], Threw (Lib_error ''invalid codepoint'')))"
  using assms by (simp add: personal_sign_def toUtf8String_def Let_def split: sum.splits)

lemma up_to_approval_request:
  "up_to_approval (on_session_request env event sign send) =
     [Log (New_request (request_method (request event))),
      Confirm (Ask_approve (request_method (request event))) sign]"
  by (simp add: on_session_request_def)

text \<open>
  Claim C6 as stated (the approval prompt of a \<^verbatim>\<open>personal_sign\<close> request with a hex payload
  displays the decoded text, and the decoded bytes are signed) fails. For the payload
  \<^verbatim>\<open>0x48656c6c6f\<close> everything shown up to and including the approval prompt is the method
  name: \<^verbatim>\<open>Hello\<close> is not there, and it is never shown when the user answers \<open>No\<close>. For
  the approved payload \<^verbatim>\<open>0xff\<close> no bytes are signed: decoding the text for display throws.
\<close>

theorem approval_prompt_shows_method_only:
  "up_to_approval (on_session_request sample_env hello_request Yes Yes) =
     [Log (New_request ''personal_sign''), Confirm (Ask_approve ''personal_sign'') Yes]
   \<and> Log (Signing (JStr ''Hello''))
       \<notin> set (up_to_approval (on_session_request sample_env hello_request Yes Yes))
   \<and> Log (Signing (JStr ''Hello'')) \<notin> set (on_session_request sample_env hello_request No Yes)
   \<and> on_session_request sample_env invalid_utf8_request Yes Yes =
       [Log (New_request ''personal_sign''), Confirm (Ask_approve ''personal_sign'') Yes,
        Log (Error_signing (Lib_error ''invalid codepoint''))]"
proof -
  have a: "up_to_approval (on_session_request sample_env hello_request Yes Yes) =
     [Log (New_request ''personal_sign''), Confirm (Ask_approve ''personal_sign'') Yes]"
    by (simp add: up_to_approval_request hello_request_def)
  have b: "Log (Signing (JStr ''Hello''))
      \<notin> set (on_session_request sample_env hello_request No Yes)"
    by (simp add: on_session_request_def)
  have h: "isHexString (param_at [JStr ''0xff'', JStr ''0xBB''] 0)"
    by (simp add: param_at_def isHexString_def hex_digit_def)
  have g: "getBytes (param_at [JStr ''0xff'', JStr ''0xBB''] 0) = Inr [0xff]"
    by (simp add: param_at_def getBytes_def hex_digit_def)
  have c: "on_session_request sample_env invalid_utf8_request Yes Yes =
       [Log (New_request ''personal_sign''), Confirm (Ask_approve ''personal_sign'') Yes,
        Log (Error_signing (Lib_error ''invalid codepoint''))]"
    by (simp add: on_session_request_def invalid_utf8_request_def dispatch_def
        personal_sign_hex [OF h] g)
  show ?thesis using a b c by simp
qed

text \<open>
  Claim C6, amended. For a \<^verbatim>\<open>personal_sign\<close> request whose payload is a hex string: the
  approval prompt names the method only; whatever is signed is signed after the answer
  \<open>Yes\<close> and is the byte sequence that the hex digits encode, never the hex string; and
  for a payload whose bytes are well-formed UTF-8, once the user has approved, the handler
  prints the decoded text after the prompt and then signs the bytes, and signs nothing
  else.
\<close>

theorem personal_sign_signs_decoded_bytes:
  assumes m: "request_method (request event) = ''personal_sign''"
    and h: "isHexString (param_at (request_params (request event)) 0)"
  shows "(\<forall>d. Sign_message d \<in> set (on_session_request env event sign send) \<longrightarrow>
            sign = Yes \<and>
            (\<exists>bs. getBytes (param_at (request_params (request event)) 0) = Inr bs \<and>
                  d = Bytes bs))
       \<and> (\<forall>bs. getBytes (param_at (request_params (request event)) 0) = Inr bs \<longrightarrow>
            valid_utf8 bs \<longrightarrow>
            (\<exists>rest. on_session_request env event Yes send =
                [Log (New_request ''personal_sign''),
                 Confirm (Ask_approve ''personal_sign'') Yes,
                 Log (Signing (JStr (text_of bs))),
                 Sign_message (Bytes bs)] @ rest
              \<and> filter executes rest = []))
       \<and> up_to_approval (on_session_request env event sign send) =
            [Log (New_request ''personal_sign''), Confirm (Ask_approve ''personal_sign'') sign]"
proof -
  note ps = personal_sign_hex [OF h, of env]
  have d: "dispatch env (request event) send = personal_sign env (request_params (request event))"
    using m by (simp add: dispatch_def)
  have a: "\<forall>d. Sign_message d \<in> set (on_session_request env event sign send) \<longrightarrow>
            sign = Yes \<and>
            (\<exists>bs. getBytes (param_at (request_params (request event)) 0) = Inr bs \<and>
                  d = Bytes bs)"
    by (cases sign)
      (auto simp: on_session_request_def d ps sign_and_log_def split: sum.splits if_splits)
  have b: "\<forall>bs. getBytes (param_at (request_params (request event)) 0) = Inr bs \<longrightarrow>
            valid_utf8 bs \<longrightarrow>
            (\<exists>rest. on_session_request env event Yes send =
                [Log (New_request ''personal_sign''),
                 Confirm (Ask_approve ''personal_sign'') Yes,
                 Log (Signing (JStr (text_of bs))),
                 Sign_message (Bytes bs)] @ rest
              \<and> filter executes rest = [])"
    by (auto simp: on_session_request_def d ps m sign_and_log_def split: sum.splits)
  have c: "up_to_approval (on_session_request env event sign send) =
            [Log (New_request ''personal_sign''), Confirm (Ask_approve ''personal_sign'') sign]"
    by (simp add: up_to_approval_request m)
  show ?thesis using a b c by blast
qed

theorem personal_sign_signs_decoded_bytes_witness:
  "request_method (request hello_request) = ''personal_sign'' \<and>
   isHexString (param_at (request_params (request hello_request)) 0) \<and>
   getBytes (param_at (request_params (request hello_request)) 0)
     = Inr [0x48, 0x65, 0x6c, 0x6c, 0x6f] \<and>
   valid_utf8 [0x48, 0x65, 0x6c, 0x6c, 0x6f] \<and>
   (\<exists>rest. on_session_request sample_env hello_request Yes Yes =
      [Log (New_request ''personal_sign''), Confirm (Ask_approve ''personal_sign'') Yes,
       Log (Signing (JStr ''Hello'')),
       Sign_message (Bytes [0x48, 0x65, 0x6c, 0x6c, 0x6f])] @ rest
     \<and> filter executes rest = [])"
proof -
  have m: "request_method (request hello_request) = ''personal_sign''"
    by (simp add: hello_request_def)
  have p: "param_at (request_params (request hello_request)) 0 = JStr ''0x48656c6c6f''"
    by (simp add: hello_request_def param_at_def)
  have h: "isHexString (param_at (request_params (request hello_request)) 0)"
    by (simp only: p hello_is_hex)
  have g: "getBytes (param_at (request_params (request hello_request)) 0)
     = Inr [0x48, 0x65, 0x6c, 0x6c, 0x6f]"
    by (simp only: p hello_bytes)
  have v: "valid_utf8 [0x48, 0x65, 0x6c, 0x6c, 0x6f]" by simp
  show ?thesis
    using personal_sign_signs_decoded_bytes [OF m h, of sample_env Yes Yes] m h g v
    by (simp add: hello_text)
qed







subsection \<open>The action gate\<close>









end
